theory Spec2Isabelle
  imports Complex_Main
begin

section \<open>Angle classifier (services/cv/angle\_calculator.ts)\<close>

text \<open>
  JavaScript numbers are modelled as real numbers: the classifier compares, subtracts and
  halves them, and the bands are small decimal constants. NaN and the infinities are not
  values of this model.
\<close>


text \<open>The keys of \<open>IDEAL_RANGES\<close>. Two of them share their name with a field of the
  measurement record and carry a suffix.\<close>

datatype metric = elbowAngle | kneeFlexion | bodyLean_key | setPointHeight_key

record ideal_range =
  range_min :: real
  range_max :: real
  unit :: string

definition IDEAL_RANGES :: "metric \<Rightarrow> ideal_range" where
  "IDEAL_RANGES m =
     (case m of
        elbowAngle \<Rightarrow> \<lparr>range_min = 85, range_max = 100, unit = [CHR 0xC2, CHR 0xB0]\<rparr>
      | kneeFlexion \<Rightarrow> \<lparr>range_min = 30, range_max = 45, unit = [CHR 0xC2, CHR 0xB0]\<rparr>
      | bodyLean_key \<Rightarrow> \<lparr>range_min = - 5, range_max = 5, unit = [CHR 0xC2, CHR 0xB0]\<rparr>
      | setPointHeight_key \<Rightarrow> \<lparr>range_min = 1.0, range_max = 1.5, unit = ''''\<rparr>)"

datatype range_status = good | close | needs_work

record range_check =
  inRange :: bool
  deviation :: real
  status_rc :: range_status

text \<open>\<open>Math.round\<close>: the nearest integer, halves towards plus infinity.\<close>

definition Math_round :: "real \<Rightarrow> real" where
  "Math_round v = of_int \<lfloor>v + 1 / 2\<rfloor>"

text \<open>The body of \<open>isInIdealRange\<close> once the band \<open>range\<close> has been looked up (a parameter here).\<close>

definition classify :: "ideal_range \<Rightarrow> real \<Rightarrow> range_check" where
  "classify rng value =
     (if value \<ge> range_min rng \<and> value \<le> range_max rng
      then \<lparr>inRange = True, deviation = 0, status_rc = good\<rparr>
      else
        let deviation = (if value < range_min rng
                         then range_min rng - value
                         else value - range_max rng);
            rangeSize = range_max rng - range_min rng;
            closeThreshold = rangeSize * 0.5
        in \<lparr>inRange = False,
            deviation = Math_round (deviation * 10) / 10,
            status_rc = (if deviation \<le> closeThreshold then close else needs_work)\<rparr>)"

definition isInIdealRange :: "real \<Rightarrow> metric \<Rightarrow> range_check" where
  "isInIdealRange value m = classify (IDEAL_RANGES m) value"

text \<open>The distance of a value from the band \<open>[lo, hi]\<close>, in the words of the
  specification; used to state the classification, not by the code.\<close>

definition distance_outside :: "real \<Rightarrow> real \<Rightarrow> real \<Rightarrow> real" where
  "distance_outside v lo hi = (if v < lo then lo - v else if v > hi then v - hi else 0)"






section \<open>Key skeleton frames (services/cv/skeleton\_generator.ts)\<close>

text \<open>Reading a JavaScript array at an integer index: \<open>undefined\<close> (here \<open>None\<close>) outside
  \<open>0 \<dots> length - 1\<close>, never an exception.\<close>

definition at_index :: "'a list \<Rightarrow> int \<Rightarrow> 'a option" where
  "at_index xs i = (if 0 \<le> i \<and> i < int (length xs) then Some (xs ! nat i) else None)"

text \<open>\<open>[...new Set(indices)]\<close>: the first occurrence of each value, in order.\<close>

fun uniq :: "'a list \<Rightarrow> 'a list" where
  "uniq [] = []"
| "uniq (v # vs) = v # uniq (filter (\<lambda>u. u \<noteq> v) vs)"

text \<open>Decimal digits of a natural number, for the template literal \<open>`Frame ${i + 1}`\<close>.\<close>

fun decimal :: "nat \<Rightarrow> string" where
  "decimal n =
     (if n < 10 then [char_of (48 + n)] else decimal (n div 10) @ [char_of (48 + n mod 10)])"

declare decimal.simps [simp del]

record key_frames =
  paths :: "string option list"
  labels :: "string list"

text \<open>\<open>releaseFrame\<close> is an integer; \<open>Math.floor(totalFrames * 0.25)\<close> on a length is
  \<open>totalFrames div 4\<close>. An element of \<open>paths\<close> is \<open>None\<close> where the source stores
  \<open>undefined\<close>.\<close>

definition selectKeySkeletonFrames :: "string list \<Rightarrow> int \<Rightarrow> key_frames" where
  "selectKeySkeletonFrames allPaths releaseFrame =
     (if length allPaths = 0 then \<lparr>paths = [], labels = []\<rparr>
      else if length allPaths \<le> 5
      then \<lparr>paths = map Some allPaths,
            labels = map (\<lambda>i. ''Frame '' @ decimal (i + 1)) [0..<length allPaths]\<rparr>
      else
        let totalFrames = int (length allPaths);
            indices = [0,
                       totalFrames div 4,
                       max 0 (releaseFrame - 2),
                       releaseFrame,
                       min (totalFrames - 1) (releaseFrame + 3)];
            uniqueIndices = sort (uniq indices)
        in \<lparr>paths = map (\<lambda>i. at_index allPaths (min i (int (length allPaths) - 1))) uniqueIndices,
            labels = take (length uniqueIndices)
                       [''Setup'', ''Lift'', ''Set Point'', ''Release'', ''Follow-through'']\<rparr>)"

section \<open>Data model (services/firestore.ts)\<close>

datatype AnalysisStatus = queued | processing | complete | failed

datatype ProgressStage = uploading | extracting_frames | pose | llm | saving

datatype AngleHint = side | front

datatype confidence_level = high | medium | low

record ShootingAnglesMeasurements =
  elbowAngleAtRelease :: real
  kneeFlexionAtSetPoint :: real
  bodyLean :: real
  setPointHeight :: real

text \<open>\<open>ShootingAngles\<close> of the angle calculator: the four measurements, the release frame
  and the confidence bucket.\<close>

record ShootingAngles = ShootingAnglesMeasurements +
  releaseFrame :: int
  confidence :: confidence_level

text \<open>An optional property is an \<open>option\<close>; timestamps are natural numbers.\<close>

record AnalysisJob =
  analysisId :: string
  userId :: "string option"
  deviceId :: string
  status :: AnalysisStatus
  progressStage :: "ProgressStage option"
  videoPath :: "string option"
  angleHint :: "AngleHint option"
  createdAt :: nat
  updatedAt :: nat
  error :: "string option"
  coachSummary :: "string option"
  primaryFocus :: "string option"
  whyItMatters :: "string option"
  drillRecommendation :: "string option"
  correctionCategory :: "string option"
  priorReferenceText :: "string option"
  skeletonFrameUrls :: "string list option"
  shootingAngles :: "ShootingAnglesMeasurements option"

record UserData =
  deviceId_u :: string
  userId_u :: "string option"
  isPro :: bool
  freeAnalysesUsed :: int
  freeAnalysesLimit :: int
  createdAt_u :: nat
  lastAnalysisAt :: "nat option"

record SessionSummary =
  sessionId :: string
  userId_s :: "string option"
  deviceId_s :: string
  date :: nat
  primaryFocus_s :: string
  correctionCategory_s :: string
  improvementNote :: "string option"
  videoPath_s :: string

text \<open>The payload of a Cloud Task (services/queue.ts, \<open>enqueueAnalysisTask\<close>).\<close>

record task_payload =
  analysisId_t :: string
  videoPath_t :: "string option"
  angleHint_t :: "AngleHint option"
  deviceId_t :: string
  userId_t :: "string option"

text \<open>\<open>CoachingAnalysisResult\<close> (services/coaching/gemini.ts) and the object
  \<open>saveAnalysisResults\<close> receives, which adds the MediaPipe results.\<close>

record CoachingAnalysisResult =
  coachSummary_a :: string
  primaryFocus_a :: string
  whyItMatters_a :: string
  drillRecommendation_a :: string
  correctionCategory_a :: string
  priorReferenceText_a :: "string option"

record analysis_results = CoachingAnalysisResult +
  skeletonFrameUrls_r :: "string list option"
  shootingAngles_r :: "ShootingAnglesMeasurements option"

record PoseAnalysisResult =
  framesAnalyzed :: nat
  totalFrames :: nat
  shootingAngles_p :: ShootingAngles
  skeletonFramePaths :: "string list"

section \<open>Errors, the world and the environment\<close>

text \<open>A thrown value: \<open>new Error(message)\<close> (also a library's error), the \<open>ApiError\<close> that
  \<open>createError(message, code, statusCode)\<close> builds, or a value that is not an \<open>Error\<close>.\<close>

datatype js_error = Error string | ApiError string string nat | NonError

definition createError :: "string \<Rightarrow> string \<Rightarrow> nat \<Rightarrow> js_error" where
  "createError msg code statusCode = ApiError msg code statusCode"

text \<open>\<open>error instanceof Error ? error.message : "Unknown error"\<close>\<close>

definition message_or_unknown :: "js_error \<Rightarrow> string" where
  "message_or_unknown e =
     (case e of Error m \<Rightarrow> m | ApiError m c s \<Rightarrow> m | NonError \<Rightarrow> ''Unknown error'')"

text \<open>JavaScript truthiness of an optional string: defined and not empty.\<close>

definition truthy :: "string option \<Rightarrow> bool" where
  "truthy s = (case s of None \<Rightarrow> False | Some t \<Rightarrow> t \<noteq> [])"

text \<open>
  Everything the backend reads and writes: the three Firestore collections (the sessions as
  a list of documents by id, since they are queried), the Cloud Tasks queue, and the
  worker's local \<open>/tmp\<close>: plain files, and directories with the names of the files in them.
\<close>

record world =
  jobs :: "string \<rightharpoonup> AnalysisJob"
  users :: "string \<rightharpoonup> UserData"
  sessions :: "(string \<times> SessionSummary) list"
  tasks :: "task_payload list"
  files :: "string list"
  dirs :: "(string \<times> string list) list"

text \<open>The places where the backend calls a service that can fail on its own.\<close>

datatype call_site =
    At_user_get | At_user_set | At_signed_url | At_job_set | At_user_update
  | At_job_get | At_create_task
  | At_status_extracting | At_download | At_ffprobe | At_ffmpeg | At_status_pose
  | At_status_llm | At_sessions_query | At_status_saving | At_save_results
  | At_save_session | At_status_complete | At_status_failed

text \<open>What a JSON value can be; arrays and objects are not told apart.\<close>

datatype jsvalue = JUndefined | JNull | JBoolean bool | JNumber real | JString string | JObject

text \<open>The object \<open>JSON.parse\<close> yields for the coaching response. The cast to
  \<open>CoachingAnalysisResult\<close> is unchecked; the text fields are taken at their declared type,
  the category, which the code checks at run time, is any JSON value.\<close>

record parsed_analysis =
  coachSummary_j :: string
  primaryFocus_j :: string
  whyItMatters_j :: string
  drillRecommendation_j :: string
  correctionCategory_j :: jsvalue
  priorReferenceText_j :: "string option"

text \<open>The user prompt, by its sections rather than its text.\<close>

datatype pose_section = Measured ShootingAngles | Legacy string | No_pose

record user_prompt =
  camera_angle :: "AngleHint option"
  pose_data :: pose_section
  continuity :: "(string \<times> nat) option"

text \<open>
  One run's environment: the clock, the identifiers \<open>uuidv4()\<close> returns, the failures of
  the services (\<open>fault\<close>), and what the collaborators answer. A generated response is an
  error or a response whose \<open>text()\<close> is an error or a string.
\<close>

record env =
  now :: nat
  uuid1 :: string
  uuid2 :: string
  fault :: "call_site \<Rightarrow> js_error option"
  signed_url :: string
  ffmpeg_frames :: "string list"
  mediapipe :: "js_error + PoseAnalysisResult"
  mediapipe_files :: "string list"
  gcs_upload :: "string \<Rightarrow> string \<Rightarrow> string option"
  primary_model :: "user_prompt \<Rightarrow> js_error + (js_error + string)"
  fallback_model :: "user_prompt \<Rightarrow> js_error + (js_error + string)"
  JSON_parse :: "string \<Rightarrow> js_error + parsed_analysis"

text \<open>An asynchronous function: from a world to a rejection or a value, and the world after.\<close>

type_synonym 'a prog = "world \<Rightarrow> (js_error + 'a) \<times> world"

definition resolved :: "'a \<Rightarrow> 'a prog" where
  "resolved v = (\<lambda>w. (Inr v, w))"

definition rejected :: "js_error \<Rightarrow> 'a prog" where
  "rejected e = (\<lambda>w. (Inl e, w))"

definition await :: "'a prog \<Rightarrow> ('a \<Rightarrow> 'b prog) \<Rightarrow> 'b prog" where
  "await m f = (\<lambda>w. case m w of (Inl e, w') \<Rightarrow> (Inl e, w') | (Inr v, w') \<Rightarrow> f v w')"

definition try_catch :: "'a prog \<Rightarrow> (js_error \<Rightarrow> 'a prog) \<Rightarrow> 'a prog" where
  "try_catch m h = (\<lambda>w. case m w of (Inl e, w') \<Rightarrow> h e w' | (Inr v, w') \<Rightarrow> (Inr v, w'))"

text \<open>A service call that fails when the environment says so.\<close>

definition service :: "js_error option \<Rightarrow> 'a prog \<Rightarrow> 'a prog" where
  "service flt m = (case flt of Some e \<Rightarrow> rejected e | None \<Rightarrow> m)"

text \<open>Firestore's \<open>update\<close> rejects when the document does not exist.\<close>

definition NOT_FOUND :: js_error where
  "NOT_FOUND = Error ''5 NOT_FOUND: No document to update''"

section \<open>Job ledger, entitlements and sessions (services/firestore.ts)\<close>

definition createAnalysisJob ::
  "nat \<Rightarrow> js_error option \<Rightarrow> string \<Rightarrow> string \<Rightarrow> string option \<Rightarrow> AngleHint option \<Rightarrow> string
    \<Rightarrow> AnalysisJob prog" where
  "createAnalysisJob now_ts flt analysis_id device_id user_id angle_hint video_path =
     (let job = \<lparr>analysisId = analysis_id, userId = user_id, deviceId = device_id,
                 status = queued, progressStage = None, videoPath = Some video_path,
                 angleHint = angle_hint, createdAt = now_ts, updatedAt = now_ts,
                 error = None, coachSummary = None, primaryFocus = None,
                 whyItMatters = None, drillRecommendation = None,
                 correctionCategory = None, priorReferenceText = None,
                 skeletonFrameUrls = None, shootingAngles = None\<rparr>
      in service flt (\<lambda>w. (Inr job, w\<lparr>jobs := (jobs w)(analysis_id \<mapsto> job)\<rparr>)))"

text \<open>The store is created with \<open>ignoreUndefinedProperties\<close>: an undefined
  \<open>progressStage\<close> leaves the stored one; \<open>error\<close> is written only when truthy. The write
  does not read the stored status.\<close>

definition updateAnalysisStatus ::
  "nat \<Rightarrow> js_error option \<Rightarrow> string \<Rightarrow> AnalysisStatus \<Rightarrow> ProgressStage option
    \<Rightarrow> string option \<Rightarrow> unit prog" where
  "updateAnalysisStatus now_ts flt analysis_id st stage err =
     service flt (\<lambda>w.
       case jobs w analysis_id of
         None \<Rightarrow> (Inl NOT_FOUND, w)
       | Some job \<Rightarrow>
           (Inr (),
            w\<lparr>jobs := (jobs w)(analysis_id \<mapsto>
                 job\<lparr>status := st,
                     progressStage := (case stage of None \<Rightarrow> progressStage job | Some s \<Rightarrow> Some s),
                     updatedAt := now_ts,
                     error := (if truthy err then err else error job)\<rparr>)\<rparr>))"

definition saveAnalysisResults ::
  "nat \<Rightarrow> js_error option \<Rightarrow> string \<Rightarrow> analysis_results \<Rightarrow> unit prog" where
  "saveAnalysisResults now_ts flt analysis_id results =
     service flt (\<lambda>w.
       case jobs w analysis_id of
         None \<Rightarrow> (Inl NOT_FOUND, w)
       | Some job \<Rightarrow>
           (Inr (),
            w\<lparr>jobs := (jobs w)(analysis_id \<mapsto>
                 job\<lparr>status := complete,
                     coachSummary := Some (coachSummary_a results),
                     primaryFocus := Some (primaryFocus_a results),
                     whyItMatters := Some (whyItMatters_a results),
                     drillRecommendation := Some (drillRecommendation_a results),
                     correctionCategory := Some (correctionCategory_a results),
                     priorReferenceText :=
                       (case priorReferenceText_a results of
                          None \<Rightarrow> priorReferenceText job | Some t \<Rightarrow> Some t),
                     skeletonFrameUrls :=
                       (case skeletonFrameUrls_r results of
                          None \<Rightarrow> skeletonFrameUrls job | Some u \<Rightarrow> Some u),
                     shootingAngles :=
                       (case shootingAngles_r results of
                          None \<Rightarrow> shootingAngles job | Some a \<Rightarrow> Some a),
                     updatedAt := now_ts\<rparr>)\<rparr>))"

definition getAnalysisJob :: "js_error option \<Rightarrow> string \<Rightarrow> AnalysisJob option prog" where
  "getAnalysisJob flt analysis_id = service flt (\<lambda>w. (Inr (jobs w analysis_id), w))"

text \<open>\<open>userId || deviceId\<close>\<close>

definition docId :: "string \<Rightarrow> string option \<Rightarrow> string" where
  "docId device_id user_id =
     (case user_id of None \<Rightarrow> device_id | Some u \<Rightarrow> if u \<noteq> [] then u else device_id)"

definition getOrCreateUserData ::
  "nat \<Rightarrow> js_error option \<Rightarrow> js_error option \<Rightarrow> string \<Rightarrow> string option \<Rightarrow> UserData prog" where
  "getOrCreateUserData now_ts flt_get flt_set device_id user_id =
     await (service flt_get (\<lambda>w. (Inr (users w (docId device_id user_id)), w))) (\<lambda>doc.
       case doc of
         Some userData \<Rightarrow> resolved userData
       | None \<Rightarrow>
           let userData = \<lparr>deviceId_u = device_id, userId_u = user_id, isPro = False,
                            freeAnalysesUsed = 0, freeAnalysesLimit = 1,
                            createdAt_u = now_ts, lastAnalysisAt = None\<rparr>
           in service flt_set
                (\<lambda>w. (Inr userData, w\<lparr>users := (users w)(docId device_id user_id \<mapsto> userData)\<rparr>)))"

definition incrementFreeAnalysesUsed ::
  "nat \<Rightarrow> js_error option \<Rightarrow> string \<Rightarrow> string option \<Rightarrow> unit prog" where
  "incrementFreeAnalysesUsed now_ts flt device_id user_id =
     service flt (\<lambda>w.
       case users w (docId device_id user_id) of
         None \<Rightarrow> (Inl NOT_FOUND, w)
       | Some u \<Rightarrow>
           (Inr (),
            w\<lparr>users := (users w)(docId device_id user_id \<mapsto>
                 u\<lparr>freeAnalysesUsed := freeAnalysesUsed u + 1,
                   lastAnalysisAt := Some now_ts\<rparr>)\<rparr>))"

text \<open>\<open>doc(id).set(data)\<close> on a collection kept as a list: replace the document or add it.\<close>

fun doc_set :: "'k \<Rightarrow> 'v \<Rightarrow> ('k \<times> 'v) list \<Rightarrow> ('k \<times> 'v) list" where
  "doc_set k v [] = [(k, v)]"
| "doc_set k v ((k', v') # rest) =
     (if k' = k then (k, v) # rest else (k', v') # doc_set k v rest)"

definition saveSession ::
  "nat \<Rightarrow> js_error option \<Rightarrow> string \<Rightarrow> string \<Rightarrow> string option \<Rightarrow> string \<Rightarrow> string
    \<Rightarrow> string option \<Rightarrow> string \<Rightarrow> unit prog" where
  "saveSession now_ts flt session_id device_id user_id primary_focus correction_category
     improvement_note video_path =
     (let session = \<lparr>sessionId = session_id, userId_s = user_id, deviceId_s = device_id,
                     date = now_ts, primaryFocus_s = primary_focus,
                     correctionCategory_s = correction_category,
                     improvementNote = improvement_note, videoPath_s = video_path\<rparr>
      in service flt (\<lambda>w. (Inr (), w\<lparr>sessions := doc_set session_id session (sessions w)\<rparr>)))"

text \<open>\<open>orderBy("date", "desc")\<close>: insertion into a list kept in descending date order.\<close>

fun insert_desc :: "SessionSummary \<Rightarrow> SessionSummary list \<Rightarrow> SessionSummary list" where
  "insert_desc s [] = [s]"
| "insert_desc s (t # ts) = (if date t \<le> date s then s # t # ts else t # insert_desc s ts)"

definition orderBy_date_desc :: "SessionSummary list \<Rightarrow> SessionSummary list" where
  "orderBy_date_desc ss = foldr insert_desc ss []"

text \<open>The query filters on \<open>deviceId\<close> alone; \<open>userId\<close> is not used.\<close>

definition getUserSessions ::
  "js_error option \<Rightarrow> string \<Rightarrow> string option \<Rightarrow> nat \<Rightarrow> SessionSummary list prog" where
  "getUserSessions flt device_id user_id limit =
     service flt (\<lambda>w.
       (Inr (take limit (orderBy_date_desc
               (filter (\<lambda>s. deviceId_s s = device_id) (map snd (sessions w))))), w))"

section \<open>Local files (fs) and storage (services/storage.ts, services/cv)\<close>

definition join :: "string \<Rightarrow> string \<Rightarrow> string" where
  "join dir name = dir @ ''/'' @ name"

definition basename :: "string \<Rightarrow> string" where
  "basename p = rev (takeWhile (\<lambda>c. c \<noteq> CHR ''/'') (rev p))"

definition all_paths :: "world \<Rightarrow> string list" where
  "all_paths w = files w @ concat (map (\<lambda>(d, names). d # map (join d) names) (dirs w))"

definition existsSync :: "world \<Rightarrow> string \<Rightarrow> bool" where
  "existsSync w p = (p \<in> set (all_paths w))"

definition ENOENT :: js_error where
  "ENOENT = Error ''ENOENT: no such file or directory''"

definition unlinkSync :: "string \<Rightarrow> unit prog" where
  "unlinkSync p =
     (\<lambda>w. if p \<in> set (files w) then (Inr (), w\<lparr>files := removeAll p (files w)\<rparr>)
          else (Inl ENOENT, w))"

text \<open>\<open>fs.rmSync(dir, { recursive: true, force: true })\<close>\<close>

definition rmSync :: "string \<Rightarrow> world \<Rightarrow> world" where
  "rmSync dir w = w\<lparr>dirs := filter (\<lambda>(d, names). d \<noteq> dir) (dirs w),
                    files := removeAll dir (files w)\<rparr>"

text \<open>\<open>cleanupSkeletonFrames\<close>: nothing when the directory does not exist; otherwise every
  file in it is unlinked and the directory removed. A failure inside (the path is a plain
  file) is caught and logged.\<close>

definition cleanupSkeletonFrames :: "string \<Rightarrow> unit prog" where
  "cleanupSkeletonFrames skeletonDir =
     (\<lambda>w. if \<not> existsSync w skeletonDir then (Inr (), w)
          else if skeletonDir \<in> fst ` set (dirs w)
          then (Inr (), w\<lparr>dirs := filter (\<lambda>(d, names). d \<noteq> skeletonDir) (dirs w)\<rparr>)
          else (Inr (), w))"

text \<open>\<open>downloadVideo\<close>: the bucket's \<open>download\<close> writes the destination file.\<close>

definition downloadVideo :: "js_error option \<Rightarrow> string \<Rightarrow> string \<Rightarrow> unit prog" where
  "downloadVideo flt video_path destination =
     service flt (\<lambda>w. (Inr (), w\<lparr>files := destination # removeAll destination (files w)\<rparr>))"

text \<open>\<open>generateSignedUploadUrl\<close>: a fresh object path under the job's id, and the URL the
  bucket signs for it.\<close>

definition generateSignedUploadUrl :: "env \<Rightarrow> string \<Rightarrow> (string \<times> string) prog" where
  "generateSignedUploadUrl en analysis_id =
     (let video_path = ''videos/'' @ analysis_id @ ''/'' @ uuid2 en @ ''.mp4''
      in service (fault en At_signed_url) (resolved (signed_url en, video_path)))"

text \<open>\<open>extractShootingFrames\<close>: ffprobe for the metadata, then \<open>extractFrames\<close>, which
  creates the output directory and runs ffmpeg. The frames ffmpeg writes, already sampled
  and capped, are the environment's \<open>ffmpeg_frames\<close>.\<close>

definition mkdirSync :: "string \<Rightarrow> world \<Rightarrow> world" where
  "mkdirSync dir w = (if existsSync w dir then w else w\<lparr>dirs := dirs w @ [(dir, [])]\<rparr>)"

definition write_files :: "string \<Rightarrow> string list \<Rightarrow> world \<Rightarrow> world" where
  "write_files dir names w =
     w\<lparr>dirs := map (\<lambda>(d, old). if d = dir then (d, old @ filter (\<lambda>n. n \<notin> set old) names)
                                else (d, old)) (dirs w)\<rparr>"

definition extractShootingFrames :: "env \<Rightarrow> string \<Rightarrow> string \<Rightarrow> string list prog" where
  "extractShootingFrames en video_path outputDir =
     await (service (fault en At_ffprobe) (resolved ())) (\<lambda>_.
       (\<lambda>w. let w1 = mkdirSync outputDir w in
            case fault en At_ffmpeg of
              Some e \<Rightarrow> (Inl e, w1)
            | None \<Rightarrow> (Inr (map (join outputDir) (ffmpeg_frames en)),
                       write_files outputDir (ffmpeg_frames en) w1)))"

text \<open>\<open>runMediaPipePose\<close> spawns the Python worker, which is not TypeScript of this
  repository: it resolves with the parsed result or rejects (script missing, non-zero exit,
  unparseable output), and the worker leaves \<open>mediapipe_files\<close> in the output directory.\<close>

definition runMediaPipePose :: "env \<Rightarrow> string \<Rightarrow> string \<Rightarrow> PoseAnalysisResult prog" where
  "runMediaPipePose en framesDir outputDir =
     (\<lambda>w. (mediapipe en, write_files outputDir (mediapipe_files en) (mkdirSync outputDir w)))"

text \<open>\<open>uploadSkeletonFrames\<close>: a frame that is not on disk is skipped, a failed upload is
  logged and skipped; the function does not throw.\<close>

definition uploadSkeletonFrames :: "env \<Rightarrow> string option list \<Rightarrow> string \<Rightarrow> string list prog" where
  "uploadSkeletonFrames en skeletonPaths analysis_id =
     (\<lambda>w. (Inr (List.map_filter
                   (\<lambda>p. case p of
                           None \<Rightarrow> None
                         | Some localPath \<Rightarrow>
                             if \<not> existsSync w localPath then None
                             else gcs_upload en localPath
                                    (''skeletons/'' @ analysis_id @ ''/'' @ basename localPath))
                   skeletonPaths), w))"

section \<open>The coaching decision (services/coaching/gemini.ts)\<close>

definition validCategories :: "string list" where
  "validCategories =
     [''balance_verticality'', ''shot_line_integrity'', ''set_point_consistency'',
      ''release_follow_through'']"

text \<open>\<open>validCategories.includes(v)\<close>: only a string is equal to a string.\<close>

definition includes_value :: "string list \<Rightarrow> jsvalue \<Rightarrow> bool" where
  "includes_value xs v = (case v of JString s \<Rightarrow> s \<in> set xs | _ \<Rightarrow> False)"

definition string_of :: "jsvalue \<Rightarrow> string" where
  "string_of v = (case v of JString s \<Rightarrow> s | _ \<Rightarrow> [])"

text \<open>\<open>text.match(/\{[\s\S]*\}/)\<close>: from the first opening brace to the last closing brace
  after it.\<close>

definition json_match :: "string \<Rightarrow> string option" where
  "json_match txt =
     (let from_brace = dropWhile (\<lambda>c. c \<noteq> CHR ''{'') txt;
          to_brace = rev (dropWhile (\<lambda>c. c \<noteq> CHR ''}'') (rev from_brace))
      in if to_brace = [] then None else Some to_brace)"

record coach_params =
  videoPath_c :: string
  angleHint_c :: "AngleHint option"
  previousFocus :: "string option"
  sessionsOnFocus :: "nat option"
  poseContext :: "string option"
  shootingAngles_c :: "ShootingAngles option"

definition build_prompt :: "coach_params \<Rightarrow> user_prompt" where
  "build_prompt params =
     \<lparr>camera_angle = angleHint_c params,
      pose_data = (case shootingAngles_c params of
                     Some a \<Rightarrow> Measured a
                   | None \<Rightarrow>
                       (case poseContext params of
                          None \<Rightarrow> No_pose
                        | Some txt \<Rightarrow> if txt \<noteq> [] then Legacy txt else No_pose)),
      continuity = (case (previousFocus params, sessionsOnFocus params) of
                      (Some f, Some n) \<Rightarrow> if f \<noteq> [] \<and> n \<noteq> 0 \<and> n > 0 then Some (f, n) else None
                    | _ \<Rightarrow> None)\<rparr>"

definition generate_with_fallback :: "env \<Rightarrow> user_prompt \<Rightarrow> js_error + (js_error + string)" where
  "generate_with_fallback en prompt =
     (case primary_model en prompt of
        Inr r \<Rightarrow> Inr r
      | Inl primaryError \<Rightarrow>
          (case fallback_model en prompt of
             Inr r \<Rightarrow> Inr r
           | Inl fallbackError \<Rightarrow> Inl (Error ''Failed to analyze shooting form with Gemini'')))"

definition validate_category :: "jsvalue \<Rightarrow> string" where
  "validate_category c =
     (if \<not> includes_value validCategories c then ''release_follow_through'' else string_of c)"

definition analyzeShootingForm :: "env \<Rightarrow> coach_params \<Rightarrow> CoachingAnalysisResult prog" where
  "analyzeShootingForm en params =
     (\<lambda>w. (if videoPath_c params \<notin> set (files w) then Inl ENOENT
           else
             case generate_with_fallback en (build_prompt params) of
               Inl e \<Rightarrow> Inl e
             | Inr response \<Rightarrow>
                 (case response of
                    Inl e \<Rightarrow> Inl e
                  | Inr txt \<Rightarrow>
                      (case json_match txt of
                         None \<Rightarrow> Inl (Error ''Failed to parse Gemini response as JSON'')
                       | Some matched \<Rightarrow>
                           (case JSON_parse en matched of
                              Inl e \<Rightarrow> Inl e
                            | Inr analysis \<Rightarrow>
                                Inr \<lparr>coachSummary_a = coachSummary_j analysis,
                                     primaryFocus_a = primaryFocus_j analysis,
                                     whyItMatters_a = whyItMatters_j analysis,
                                     drillRecommendation_a = drillRecommendation_j analysis,
                                     correctionCategory_a =
                                       validate_category (correctionCategory_j analysis),
                                     priorReferenceText_a = priorReferenceText_j analysis\<rparr>))),
           w))"

section \<open>The processing worker (services/queue.ts)\<close>

record worker_params =
  analysisId_w :: string
  videoPath_w :: string
  angleHint_w :: "AngleHint option"
  deviceId_w :: string
  userId_w :: "string option"

definition enqueueAnalysisTask :: "env \<Rightarrow> task_payload \<Rightarrow> unit prog" where
  "enqueueAnalysisTask en payload =
     (case fault en At_create_task of
        Some e \<Rightarrow> rejected (Error ''Failed to enqueue analysis task'')
      | None \<Rightarrow> (\<lambda>w. (Inr (), w\<lparr>tasks := tasks w @ [payload]\<rparr>)))"

text \<open>The inner \<open>try\<close> around the pose estimation: \<open>shootingAngles\<close> and
  \<open>skeletonFrameUrls\<close> keep whatever was assigned before a rejection.\<close>

definition pose_step ::
  "env \<Rightarrow> string \<Rightarrow> string \<Rightarrow> string \<Rightarrow> (ShootingAngles option \<times> string list) prog" where
  "pose_step en analysis_id framesDir skeletonOutputDir =
     (\<lambda>w. case runMediaPipePose en framesDir skeletonOutputDir w of
            (Inl poseError, w1) \<Rightarrow> (Inr (None, []), w1)
          | (Inr poseResult, w1) \<Rightarrow>
              let shooting_angles = shootingAngles_p poseResult;
                  keyFramePaths = paths (selectKeySkeletonFrames (skeletonFramePaths poseResult)
                                           (releaseFrame shooting_angles))
              in if length keyFramePaths > 0
                 then (case uploadSkeletonFrames en keyFramePaths analysis_id w1 of
                         (Inl poseError, w2) \<Rightarrow> (Inr (Some shooting_angles, []), w2)
                       | (Inr urls, w2) \<Rightarrow> (Inr (Some shooting_angles, urls), w2))
                 else (Inr (Some shooting_angles, []), w1))"

text \<open>\<open>previousFocus = sessions[0]?.primaryFocus\<close> and the number of the sessions read
  whose \<open>primaryFocus\<close> is that same value.\<close>

definition continuity_context :: "SessionSummary list \<Rightarrow> string option \<times> nat" where
  "continuity_context sess =
     (let previous_focus = (case sess of [] \<Rightarrow> None | s # rest \<Rightarrow> Some (primaryFocus_s s));
          sessions_on_focus = length (filter (\<lambda>s. Some (primaryFocus_s s) = previous_focus) sess)
      in (previous_focus, sessions_on_focus))"

definition processAnalysisTask :: "env \<Rightarrow> worker_params \<Rightarrow> unit prog" where
  "processAnalysisTask en params =
     (let analysis_id = analysisId_w params;
          skeletonOutputDir = ''/tmp/'' @ analysis_id @ ''-skeletons''
      in try_catch
        (await (updateAnalysisStatus (now en) (fault en At_status_extracting) analysis_id
                  processing (Some extracting_frames) None) (\<lambda>_.
         let localVideoPath = ''/tmp/'' @ uuid1 en @ ''.mp4'' in
         await (downloadVideo (fault en At_download) (videoPath_w params) localVideoPath) (\<lambda>_.
         let framesDir = ''/tmp/'' @ analysis_id @ ''-frames'' in
         await (extractShootingFrames en localVideoPath framesDir) (\<lambda>framePaths.
         await (updateAnalysisStatus (now en) (fault en At_status_pose) analysis_id
                  processing (Some pose) None) (\<lambda>_.
         await (pose_step en analysis_id framesDir skeletonOutputDir)
           (\<lambda>(shooting_angles, skeleton_urls).
         await (updateAnalysisStatus (now en) (fault en At_status_llm) analysis_id
                  processing (Some llm) None) (\<lambda>_.
         await (getUserSessions (fault en At_sessions_query) (deviceId_w params)
                  (userId_w params) 5) (\<lambda>sess.
         let (previous_focus, sessions_on_focus) = continuity_context sess in
         await (analyzeShootingForm en
                  \<lparr>videoPath_c = localVideoPath, angleHint_c = angleHint_w params,
                   previousFocus = previous_focus, sessionsOnFocus = Some sessions_on_focus,
                   poseContext = None, shootingAngles_c = shooting_angles\<rparr>) (\<lambda>analysis.
         await (updateAnalysisStatus (now en) (fault en At_status_saving) analysis_id
                  processing (Some saving) None) (\<lambda>_.
         await (saveAnalysisResults (now en) (fault en At_save_results) analysis_id
                  \<lparr>coachSummary_a = coachSummary_a analysis,
                   primaryFocus_a = primaryFocus_a analysis,
                   whyItMatters_a = whyItMatters_a analysis,
                   drillRecommendation_a = drillRecommendation_a analysis,
                   correctionCategory_a = correctionCategory_a analysis,
                   priorReferenceText_a = None,
                   skeletonFrameUrls_r = Some skeleton_urls,
                   shootingAngles_r =
                     (case shooting_angles of
                        None \<Rightarrow> None
                      | Some a \<Rightarrow> Some (ShootingAnglesMeasurements.truncate a))\<rparr>) (\<lambda>_.
         await (saveSession (now en) (fault en At_save_session) analysis_id
                  (deviceId_w params) (userId_w params) (primaryFocus_a analysis)
                  (correctionCategory_a analysis) None (videoPath_w params)) (\<lambda>_.
         await (updateAnalysisStatus (now en) (fault en At_status_complete) analysis_id
                  complete None None) (\<lambda>_.
         await (unlinkSync localVideoPath) (\<lambda>_.
         await (\<lambda>w. (Inr (), if existsSync w framesDir then rmSync framesDir w else w)) (\<lambda>_.
         cleanupSkeletonFrames skeletonOutputDir)))))))))))))))
        (\<lambda>err.
           await (try_catch (cleanupSkeletonFrames skeletonOutputDir) (\<lambda>e. resolved ())) (\<lambda>_.
           await (updateAnalysisStatus (now en) (fault en At_status_failed) analysis_id
                    failed None (Some (message_or_unknown err))) (\<lambda>_.
           rejected err))))"

section \<open>The analysis routes (routes/analysis.ts)\<close>

text \<open>What the handler reads of a request: the identity the middleware attached, the
  outcome of \<open>safeParse\<close> on the body (\<open>None\<close> when it fails, else the optional hint) and
  the \<open>:id\<close> parameter.\<close>

record request =
  req_deviceId :: "string option"
  req_userId :: "string option"
  req_body :: "AngleHint option option"
  req_id :: string

datatype response_body =
    Error_body string string
  | Created_body string string string
  | Status_body string string

record response =
  statusCode :: nat
  body :: response_body

definition status_text :: "AnalysisStatus \<Rightarrow> string" where
  "status_text s =
     (case s of queued \<Rightarrow> ''queued'' | processing \<Rightarrow> ''processing''
      | complete \<Rightarrow> ''complete'' | failed \<Rightarrow> ''failed'')"

text \<open>The handlers' \<open>catch\<close>: an error with a truthy \<open>statusCode\<close> is reported as it is,
  anything else as a 500 with the handler's own message.\<close>

definition error_response :: "string \<Rightarrow> js_error \<Rightarrow> response" where
  "error_response fallback e =
     (case e of
        ApiError msg code sc \<Rightarrow>
          if sc \<noteq> 0 then \<lparr>statusCode = sc, body = Error_body code msg\<rparr>
          else \<lparr>statusCode = 500, body = Error_body ''ANALYSIS_FAILED'' fallback\<rparr>
      | _ \<Rightarrow> \<lparr>statusCode = 500, body = Error_body ''ANALYSIS_FAILED'' fallback\<rparr>)"

definition respond :: "string \<Rightarrow> response prog \<Rightarrow> world \<Rightarrow> response \<times> world" where
  "respond fallback handler w =
     (case handler w of
        (Inr r, w') \<Rightarrow> (r, w')
      | (Inl e, w') \<Rightarrow> (error_response fallback e, w'))"

definition post_analysis :: "env \<Rightarrow> request \<Rightarrow> world \<Rightarrow> response \<times> world" where
  "post_analysis en req =
     respond ''Failed to create analysis job''
       (case req_body req of
          None \<Rightarrow> rejected (createError ''Invalid request body'' ''INVALID_REQUEST'' 400)
        | Some angle_hint \<Rightarrow>
            (case req_deviceId req of
               None \<Rightarrow> rejected (createError ''Device ID required'' ''UNAUTHORIZED'' 401)
             | Some device_id \<Rightarrow>
                 if device_id = [] then rejected (createError ''Device ID required'' ''UNAUTHORIZED'' 401)
                 else
                   await (getOrCreateUserData (now en) (fault en At_user_get) (fault en At_user_set)
                            device_id (req_userId req)) (\<lambda>userData.
                   if \<not> isPro userData \<and> freeAnalysesUsed userData \<ge> freeAnalysesLimit userData
                   then rejected (createError
                          ''Free analyses limit reached. Upgrade to Pro for unlimited access.''
                          ''PAYWALL_REQUIRED'' 402)
                   else
                     let analysis_id = uuid1 en in
                     await (generateSignedUploadUrl en analysis_id) (\<lambda>(uploadUrl, video_path).
                     await (createAnalysisJob (now en) (fault en At_job_set) analysis_id
                              device_id (req_userId req) angle_hint video_path) (\<lambda>_.
                     await (if \<not> isPro userData
                            then incrementFreeAnalysesUsed (now en) (fault en At_user_update)
                                   device_id (req_userId req)
                            else resolved ()) (\<lambda>_.
                     resolved \<lparr>statusCode = 201,
                               body = Created_body analysis_id uploadUrl ''pending_upload''\<rparr>))))))"

definition post_start :: "env \<Rightarrow> request \<Rightarrow> world \<Rightarrow> response \<times> world" where
  "post_start en req =
     respond ''Failed to start analysis''
       (case req_deviceId req of
          None \<Rightarrow> rejected (createError ''Device ID required'' ''UNAUTHORIZED'' 401)
        | Some device_id \<Rightarrow>
            if device_id = [] then rejected (createError ''Device ID required'' ''UNAUTHORIZED'' 401)
            else
              await (getAnalysisJob (fault en At_job_get) (req_id req)) (\<lambda>found.
              case found of
                None \<Rightarrow> rejected (createError ''Analysis not found'' ''NOT_FOUND'' 404)
              | Some job \<Rightarrow>
                  if deviceId job \<noteq> device_id
                  then rejected (createError ''Unauthorized'' ''UNAUTHORIZED'' 403)
                  else if status job = processing \<or> status job = complete
                  then resolved \<lparr>statusCode = 200,
                                 body = Status_body (status_text (status job))
                                          ''Analysis already started''\<rparr>
                  else
                    await (enqueueAnalysisTask en
                             \<lparr>analysisId_t = req_id req, videoPath_t = videoPath job,
                              angleHint_t = angleHint job, deviceId_t = device_id,
                              userId_t = userId job\<rparr>) (\<lambda>_.
                    resolved \<lparr>statusCode = 200,
                              body = Status_body ''queued'' ''Analysis started''\<rparr>)))"

section \<open>Vocabulary of the statements\<close>

text \<open>The order of the specification's state machine,
  \<open>queued \<rightarrow> processing \<rightarrow> {complete, failed}\<close>: a status may stay, or move to a later
  one; a terminal status does not change. Stated from the specification; the code has no
  such check.\<close>

definition spec_forward :: "AnalysisStatus \<Rightarrow> AnalysisStatus \<Rightarrow> bool" where
  "spec_forward old new =
     (case old of
        queued \<Rightarrow> True
      | processing \<Rightarrow> new \<noteq> queued
      | complete \<Rightarrow> new = complete
      | failed \<Rightarrow> new = failed)"

text \<open>The entitlement record the create route works with: the stored one, or the one
  \<open>getOrCreateUserData\<close> creates on first access.\<close>

definition entitlement_read :: "nat \<Rightarrow> world \<Rightarrow> string \<Rightarrow> string option \<Rightarrow> UserData" where
  "entitlement_read t w dev uid =
     (case users w (docId dev uid) of
        Some u \<Rightarrow> u
      | None \<Rightarrow> \<lparr>deviceId_u = dev, userId_u = uid, isPro = False,
                 freeAnalysesUsed = 0, freeAnalysesLimit = 1,
                 createdAt_u = t, lastAnalysisAt = None\<rparr>)"



section \<open>Example worlds and environments\<close>

definition example_job :: "AnalysisStatus \<Rightarrow> AnalysisJob" where
  "example_job st =
     \<lparr>analysisId = ''j1'', userId = None, deviceId = ''d1'',
      status = st, progressStage = None, videoPath = Some ''videos/j1/v1.mp4'',
      angleHint = None, createdAt = 1, updatedAt = 1,
      error = None, coachSummary = None, primaryFocus = None,
      whyItMatters = None, drillRecommendation = None,
      correctionCategory = None, priorReferenceText = None,
      skeletonFrameUrls = None, shootingAngles = None\<rparr>"

definition example_world :: "AnalysisStatus \<Rightarrow> world" where
  "example_world st =
     \<lparr>jobs = [''j1'' \<mapsto> example_job st], users = Map.empty, sessions = [], tasks = [],
      files = [], dirs = []\<rparr>"

definition example_user :: "int \<Rightarrow> UserData" where
  "example_user used =
     \<lparr>deviceId_u = ''d1'', userId_u = None, isPro = False, freeAnalysesUsed = used,
      freeAnalysesLimit = 1, createdAt_u = 1, lastAnalysisAt = None\<rparr>"

definition paywalled_world :: world where
  "paywalled_world =
     \<lparr>jobs = Map.empty, users = [''d1'' \<mapsto> example_user 1], sessions = [], tasks = [],
      files = [], dirs = []\<rparr>"

definition example_pose :: PoseAnalysisResult where
  "example_pose =
     \<lparr>framesAnalyzed = 2, totalFrames = 2,
      shootingAngles_p = \<lparr>elbowAngleAtRelease = 92, kneeFlexionAtSetPoint = 40, bodyLean = 2,
                           setPointHeight = 1.2, releaseFrame = 1, confidence = high\<rparr>,
      skeletonFramePaths = [''/tmp/j1-skeletons/skeleton-0001.jpg'']\<rparr>"

definition example_analysis :: "jsvalue \<Rightarrow> parsed_analysis" where
  "example_analysis c =
     \<lparr>coachSummary_j = ''Jump straight up.'', primaryFocus_j = ''Jump straight up and down'',
      whyItMatters_j = ''Balance.'', drillRecommendation_j = ''Tape drill.'',
      correctionCategory_j = c, priorReferenceText_j = None\<rparr>"

text \<open>No service fails, the pose worker succeeds, and the coaching model answers with a
  category outside the enumeration.\<close>

definition example_env :: env where
  "example_env =
     \<lparr>now = 7, uuid1 = ''u1'', uuid2 = ''v1'', fault = (\<lambda>site. None),
      signed_url = ''https://upload'',
      ffmpeg_frames = [''frame-0001.jpg'', ''frame-0002.jpg''],
      mediapipe = Inr example_pose,
      mediapipe_files = [''skeleton-0001.jpg''],
      gcs_upload = (\<lambda>localPath gcsPath. Some gcsPath),
      primary_model = (\<lambda>prompt. Inr (Inr ''{}'')),
      fallback_model = (\<lambda>prompt. Inr (Inr ''{}'')),
      JSON_parse = (\<lambda>txt. Inr (example_analysis (JString ''footwork'')))\<rparr>"

text \<open>Both coaching models are down.\<close>

definition coach_down_env :: env where
  "coach_down_env =
     example_env\<lparr>primary_model := (\<lambda>prompt. Inl (Error ''503 Service Unavailable'')),
                 fallback_model := (\<lambda>prompt. Inl (Error ''503 Service Unavailable''))\<rparr>"


definition example_request :: request where
  "example_request =
     \<lparr>req_deviceId = Some ''d1'', req_userId = None, req_body = Some None, req_id = ''j1''\<rparr>"

definition example_params :: worker_params where
  "example_params =
     \<lparr>analysisId_w = ''j1'', videoPath_w = ''videos/j1/v1.mp4'', angleHint_w = None,
      deviceId_w = ''d1'', userId_w = None\<rparr>"




definition six_frames :: "string list" where
  "six_frames = [''s0.jpg'', ''s1.jpg'', ''s2.jpg'', ''s3.jpg'', ''s4.jpg'', ''s5.jpg'']"

section \<open>Classification into bands\<close>

text \<open>
  C7. For every value and every band \<open>[min, max]\<close>, the classification is \<open>good\<close> exactly
  when the value lies in the band; otherwise, with \<open>d\<close> the distance outside the band, it
  is \<open>close\<close> exactly when \<open>d \<le> 0.5 * (max - min)\<close> and \<open>needs_work\<close> otherwise. On the
  elbow band \<open>[85, 100]\<close> the values 92, 80 and 60 are classified good, close and
  needs\_work.
\<close>

theorem classify_bands:
  "(status_rc (classify r v) = good \<longleftrightarrow> range_min r \<le> v \<and> v \<le> range_max r)
   \<and> (status_rc (classify r v) = close \<longleftrightarrow>
        \<not> (range_min r \<le> v \<and> v \<le> range_max r)
        \<and> distance_outside v (range_min r) (range_max r) \<le> 0.5 * (range_max r - range_min r))
   \<and> (status_rc (classify r v) = needs_work \<longleftrightarrow>
        \<not> (range_min r \<le> v \<and> v \<le> range_max r)
        \<and> \<not> distance_outside v (range_min r) (range_max r) \<le> 0.5 * (range_max r - range_min r))
   \<and> range_min (IDEAL_RANGES elbowAngle) = 85 \<and> range_max (IDEAL_RANGES elbowAngle) = 100
   \<and> status_rc (isInIdealRange 92 elbowAngle) = good
   \<and> status_rc (isInIdealRange 80 elbowAngle) = close
   \<and> status_rc (isInIdealRange 60 elbowAngle) = needs_work"
  by (auto simp: classify_def isInIdealRange_def IDEAL_RANGES_def distance_outside_def Let_def)

section \<open>The angle at a vertex\<close>







section \<open>Running the model\<close>

lemmas run_defs = await_def try_catch_def resolved_def rejected_def service_def

lemmas ex_defs = example_job_def example_world_def example_pose_def example_analysis_def
  example_env_def example_params_def

lemmas model_defs = processAnalysisTask_def updateAnalysisStatus_def downloadVideo_def
  extractShootingFrames_def pose_step_def runMediaPipePose_def uploadSkeletonFrames_def
  getUserSessions_def analyzeShootingForm_def saveAnalysisResults_def saveSession_def
  unlinkSync_def cleanupSkeletonFrames_def rmSync_def mkdirSync_def write_files_def
  existsSync_def all_paths_def join_def basename_def continuity_context_def
  generate_with_fallback_def build_prompt_def json_match_def validate_category_def
  includes_value_def string_of_def validCategories_def selectKeySkeletonFrames_def
  at_index_def orderBy_date_desc_def message_or_unknown_def truthy_def ENOENT_def NOT_FOUND_def
  List.map_filter_def ShootingAnglesMeasurements.truncate_def

lemma mkdirSync_proj [simp]:
  "jobs (mkdirSync d w) = jobs w" "users (mkdirSync d w) = users w"
  "sessions (mkdirSync d w) = sessions w" "tasks (mkdirSync d w) = tasks w"
  "files (mkdirSync d w) = files w"
  by (simp_all add: mkdirSync_def)

lemma write_files_proj [simp]:
  "jobs (write_files d ns w) = jobs w" "users (write_files d ns w) = users w"
  "sessions (write_files d ns w) = sessions w" "tasks (write_files d ns w) = tasks w"
  "files (write_files d ns w) = files w"
  by (simp_all add: write_files_def)

lemma rmSync_proj [simp]:
  "jobs (rmSync d w) = jobs w" "users (rmSync d w) = users w"
  "sessions (rmSync d w) = sessions w" "tasks (rmSync d w) = tasks w"
  by (simp_all add: rmSync_def)




section \<open>Selecting key frames\<close>

lemma length_uniq_le: "length (uniq xs) \<le> length xs"
proof (induction xs rule: uniq.induct)
  case 1 show ?case by simp
next
  case (2 v vs)
  have "length (uniq (filter (\<lambda>u. u \<noteq> v) vs)) \<le> length (filter (\<lambda>u. u \<noteq> v) vs)" by (rule 2)
  also have "\<dots> \<le> length vs" by simp
  finally show ?case by simp
qed

lemma set_uniq: "set (uniq xs) = set xs"
proof (induction xs rule: uniq.induct)
  case 1 show ?case by simp
next
  case (2 v vs)
  then show ?case by auto
qed

text \<open>With a release frame that is not negative, also one past the end of the list, the
  selection stays inside the list.\<close>

lemma select_in_list:
  assumes "0 \<le> r"
  shows "length (paths (selectKeySkeletonFrames ps r)) \<le> 5
       \<and> length (labels (selectKeySkeletonFrames ps r)) = length (paths (selectKeySkeletonFrames ps r))
       \<and> set (paths (selectKeySkeletonFrames ps r)) \<subseteq> Some ` set ps
       \<and> (length ps \<le> 5 \<longrightarrow> paths (selectKeySkeletonFrames ps r) = map Some ps)"
proof (cases "length ps \<le> 5")
  case True
  then show ?thesis by (auto simp: selectKeySkeletonFrames_def)
next
  case False
  define idx where "idx = [0, int (length ps) div 4, max 0 (r - 2), r, min (int (length ps) - 1) (r + 3)]"
  have len: "length (sort (uniq idx)) \<le> 5"
    using length_uniq_le [of idx] by (simp add: idx_def del: uniq.simps)
  from False have ne: "ps \<noteq> []" by auto
  have s: "set (sort (uniq idx)) = set idx" by (simp add: set_uniq)
  have "\<forall>i \<in> set idx. 0 \<le> i"
    using assms False by (auto simp: idx_def)
  then have nonneg: "\<forall>i \<in> set (sort (uniq idx)). 0 \<le> i"
    unfolding s .
  have p: "paths (selectKeySkeletonFrames ps r) = map (\<lambda>i. at_index ps (min i (int (length ps) - 1))) (sort (uniq idx))"
    and l: "labels (selectKeySkeletonFrames ps r) = take (length (sort (uniq idx))) [''Setup'', ''Lift'', ''Set Point'', ''Release'', ''Follow-through'']"
    using False ne by (simp_all add: selectKeySkeletonFrames_def Let_def idx_def del: uniq.simps)
  have "\<And>i. 0 \<le> i \<Longrightarrow> at_index ps (min i (int (length ps) - 1)) \<in> Some ` set ps"
    using False by (auto simp: at_index_def min_def)
  with nonneg have "set (paths (selectKeySkeletonFrames ps r)) \<subseteq> Some ` set ps"
    unfolding p by auto
  moreover have "length (labels (selectKeySkeletonFrames ps r)) = length (paths (selectKeySkeletonFrames ps r))"
    unfolding p l using len by simp
  ultimately show ?thesis using len False by (simp add: p)
qed

text \<open>
  C10. The selection never reads outside the list: at most five paths, each an element of
  the input, as many labels as paths. This fails for a negative release frame: with six
  frames and release frame \<open>-1\<close> the index \<open>-1\<close> is kept, only the upper end is clamped in
  the lookup, and the first of the four paths returned is \<open>undefined\<close>.
\<close>

theorem select_negative_release_frame:
  "selectKeySkeletonFrames six_frames (- 1) =
     \<lparr>paths = [None, Some ''s0.jpg'', Some ''s1.jpg'', Some ''s2.jpg''],
      labels = [''Setup'', ''Lift'', ''Set Point'', ''Release'']\<rparr>"
  by (simp add: selectKeySkeletonFrames_def six_frames_def at_index_def Let_def)

section \<open>The job ledger's writes\<close>

text \<open>
  C1, as the claim states it, fails. On a job that is \<open>complete\<close>, a status update to
  \<open>processing\<close> is accepted and stored: the status moves backward and the write did not
  check it. The callers do reach such writes: a job that has failed can be started again
  (the start route only stops at \<open>processing\<close> and \<open>complete\<close>), and the worker then
  writes \<open>processing\<close> and, when every step succeeds, \<open>complete\<close> over the terminal status
  \<open>failed\<close>.
\<close>

theorem ledger_status_backward_counterexample:
  "map_option status (jobs (example_world complete) ''j1'') = Some complete
   \<and> fst (updateAnalysisStatus 7 None ''j1'' processing (Some extracting_frames) None
            (example_world complete)) = Inr ()
   \<and> map_option status
        (jobs (snd (updateAnalysisStatus 7 None ''j1'' processing (Some extracting_frames) None
                      (example_world complete))) ''j1'') = Some processing
   \<and> \<not> spec_forward complete processing
   \<and> map_option status (jobs (example_world failed) ''j1'') = Some failed
   \<and> fst (processAnalysisTask example_env example_params (example_world failed)) = Inr ()
   \<and> map_option status
        (jobs (snd (processAnalysisTask example_env example_params (example_world failed)))
           ''j1'') = Some complete
   \<and> \<not> spec_forward failed complete"
  by (simp add: ex_defs run_defs model_defs spec_forward_def Let_def)

text \<open>
  C1, amended. Every job ledger mutation is one write to the job's document that does not
  read the stored status: on an existing job \<open>updateAnalysisStatus\<close> stores the status it
  is given and \<open>saveAnalysisResults\<close> stores \<open>complete\<close>, whatever the status was, and no
  other job changes; on a missing job both reject and change nothing.
\<close>

theorem ledger_writes_unconditional:
  "(jobs w jid = Some job \<longrightarrow>
      (\<exists>w'. updateAnalysisStatus t None jid st stage err w = (Inr (), w')
           \<and> map_option status (jobs w' jid) = Some st
           \<and> (\<forall>k. k \<noteq> jid \<longrightarrow> jobs w' k = jobs w k))
    \<and> (\<exists>w'. saveAnalysisResults t None jid results w = (Inr (), w')
           \<and> map_option status (jobs w' jid) = Some complete
           \<and> (\<forall>k. k \<noteq> jid \<longrightarrow> jobs w' k = jobs w k)))
   \<and> (jobs w jid = None \<longrightarrow>
        updateAnalysisStatus t None jid st stage err w = (Inl NOT_FOUND, w)
      \<and> saveAnalysisResults t None jid results w = (Inl NOT_FOUND, w))"
  by (simp add: updateAnalysisStatus_def saveAnalysisResults_def service_def)

theorem ledger_writes_unconditional_witness:
  "(\<exists>w'. updateAnalysisStatus 7 None ''j1'' queued None None (example_world complete) = (Inr (), w')
         \<and> map_option status (jobs w' ''j1'') = Some queued)
   \<and> (\<exists>w'. saveAnalysisResults 7 None ''j1''
              \<lparr>coachSummary_a = ''a'', primaryFocus_a = ''b'', whyItMatters_a = ''c'',
               drillRecommendation_a = ''d'', correctionCategory_a = ''balance_verticality'',
               priorReferenceText_a = None, skeletonFrameUrls_r = None, shootingAngles_r = None\<rparr>
              (example_world failed) = (Inr (), w')
         \<and> map_option status (jobs w' ''j1'') = Some complete)
   \<and> updateAnalysisStatus 7 None ''j2'' processing None None (example_world queued)
       = (Inl NOT_FOUND, example_world queued)"
proof -
  let ?res = "\<lparr>coachSummary_a = ''a'', primaryFocus_a = ''b'', whyItMatters_a = ''c'',
               drillRecommendation_a = ''d'', correctionCategory_a = ''balance_verticality'',
               priorReferenceText_a = None, skeletonFrameUrls_r = None, shootingAngles_r = None\<rparr>"
  have j1: "jobs (example_world complete) ''j1'' = Some (example_job complete)"
    and j2: "jobs (example_world failed) ''j1'' = Some (example_job failed)"
    and j3: "jobs (example_world queued) ''j2'' = None"
    by (simp_all add: example_world_def)
  from j1 ledger_writes_unconditional
          [of "example_world complete" "''j1''" "example_job complete" 7 queued None None ?res]
  have a: "\<exists>w'. updateAnalysisStatus 7 None ''j1'' queued None None (example_world complete)
                  = (Inr (), w')
              \<and> map_option status (jobs w' ''j1'') = Some queued"
    by blast
  from j2 ledger_writes_unconditional
          [of "example_world failed" "''j1''" "example_job failed" 7 queued None None ?res]
  have b: "\<exists>w'. saveAnalysisResults 7 None ''j1'' ?res (example_world failed) = (Inr (), w')
              \<and> map_option status (jobs w' ''j1'') = Some complete"
    by blast
  from j3 ledger_writes_unconditional
          [of "example_world queued" "''j2''" "example_job queued" 7 processing None None ?res]
  have c: "updateAnalysisStatus 7 None ''j2'' processing None None (example_world queued)
             = (Inl NOT_FOUND, example_world queued)"
    by blast
  from a b c show ?thesis by (intro conjI)
qed

section \<open>Starting a job\<close>

lemmas route_defs = respond_def createError_def error_response_def

text \<open>
  C2, as the claim states it, fails for a job that has failed: the start route enqueues a
  worker task for it and answers \<open>queued\<close>, not the job's status.
\<close>

theorem start_failed_job_counterexample:
  "post_start example_env example_request (example_world failed) =
     (\<lparr>statusCode = 200, body = Status_body ''queued'' ''Analysis started''\<rparr>,
      (example_world failed)
        \<lparr>tasks := [\<lparr>analysisId_t = ''j1'', videoPath_t = Some ''videos/j1/v1.mp4'',
                     angleHint_t = None, deviceId_t = ''d1'', userId_t = None\<rparr>]\<rparr>)"
  by (simp add: post_start_def run_defs route_defs ex_defs example_request_def
      getAnalysisJob_def enqueueAnalysisTask_def)

text \<open>
  C2, amended. When its owner starts a job whose status is \<open>processing\<close> or \<open>complete\<close>,
  the route answers 200 with that status and "Analysis already started", and changes
  nothing: no task is enqueued. When the status is \<open>queued\<close> or \<open>failed\<close> and the queue
  accepts the task, each start enqueues one more task, answers \<open>queued\<close> and leaves the
  job's status as it was.
\<close>

theorem start_guard:
  assumes "req_deviceId req = Some dev" "dev \<noteq> []" "fault en At_job_get = None"
    and "jobs w (req_id req) = Some job" "deviceId job = dev"
  shows "(status job = processing \<or> status job = complete \<longrightarrow>
           post_start en req w =
             (\<lparr>statusCode = 200,
               body = Status_body (status_text (status job)) ''Analysis already started''\<rparr>, w))
       \<and> ((status job = queued \<or> status job = failed) \<and> fault en At_create_task = None \<longrightarrow>
           post_start en req w =
             (\<lparr>statusCode = 200, body = Status_body ''queued'' ''Analysis started''\<rparr>,
              w\<lparr>tasks := tasks w @
                   [\<lparr>analysisId_t = req_id req, videoPath_t = videoPath job,
                     angleHint_t = angleHint job, deviceId_t = dev, userId_t = userId job\<rparr>]\<rparr>))"
  using assms
  by (auto simp: post_start_def run_defs route_defs getAnalysisJob_def enqueueAnalysisTask_def)

theorem start_guard_witness:
  "post_start example_env example_request (example_world processing) =
     (\<lparr>statusCode = 200, body = Status_body ''processing'' ''Analysis already started''\<rparr>,
      example_world processing)
   \<and> tasks (snd (post_start example_env example_request (example_world queued))) =
       [\<lparr>analysisId_t = ''j1'', videoPath_t = Some ''videos/j1/v1.mp4'',
         angleHint_t = None, deviceId_t = ''d1'', userId_t = None\<rparr>]"
proof -
  have r: "req_deviceId example_request = Some ''d1''" "''d1'' \<noteq> []"
    and e: "fault example_env At_job_get = None" "fault example_env At_create_task = None"
    and i: "req_id example_request = ''j1''"
    by (simp_all add: example_request_def example_env_def)
  have jp: "jobs (example_world processing) (req_id example_request) = Some (example_job processing)"
    and jq: "jobs (example_world queued) (req_id example_request) = Some (example_job queued)"
    by (simp_all add: example_world_def i)
  have d: "deviceId (example_job processing) = ''d1''" "deviceId (example_job queued) = ''d1''"
    by (simp_all add: example_job_def)
  from start_guard [OF r e(1) jp d(1)]
  have a: "post_start example_env example_request (example_world processing) =
     (\<lparr>statusCode = 200, body = Status_body ''processing'' ''Analysis already started''\<rparr>,
      example_world processing)"
    by (simp add: example_job_def status_text_def)
  from start_guard [OF r e(1) jq d(2)] e(2)
  have b: "tasks (snd (post_start example_env example_request (example_world queued))) =
       [\<lparr>analysisId_t = ''j1'', videoPath_t = Some ''videos/j1/v1.mp4'',
         angleHint_t = None, deviceId_t = ''d1'', userId_t = None\<rparr>]"
    by (simp add: example_job_def example_world_def i)
  from a b show ?thesis by (intro conjI)
qed

section \<open>Creating a job behind the entitlement gate\<close>

lemma getOrCreate_ok:
  assumes "fault en At_user_get = None" "fault en At_user_set = None"
  shows "getOrCreateUserData (now en) (fault en At_user_get) (fault en At_user_set) dev uid w
         = (Inr (entitlement_read (now en) w dev uid),
            w\<lparr>users := (users w)(docId dev uid \<mapsto> entitlement_read (now en) w dev uid)\<rparr>)"
proof (cases "users w (docId dev uid)")
  case None
  then show ?thesis using assms
    by (simp add: getOrCreateUserData_def run_defs entitlement_read_def Let_def)
next
  case (Some u)
  then have "(users w)(docId dev uid \<mapsto> u) = users w" by (simp add: fun_upd_idem)
  with Some show ?thesis using assms
    by (simp add: getOrCreateUserData_def run_defs entitlement_read_def)
qed

text \<open>
  C3. For a valid request of a device whose entitlement record can be read and is not pro:
  when \<open>freeAnalysesUsed \<ge> freeAnalysesLimit\<close> the route answers 402 \<open>PAYWALL_REQUIRED\<close>
  and neither the jobs nor the tasks nor the usage count change; when the owner is allowed
  and the later steps succeed, the answer is 201, the job is stored as \<open>queued\<close> and the
  count has grown by exactly one; and whichever later step fails, the count is either
  unchanged or it is one more and the job has been stored.
\<close>

theorem create_gated:
  assumes "req_body req = Some hint" "req_deviceId req = Some dev" "dev \<noteq> []"
    and "fault en At_user_get = None" "fault en At_user_set = None"
    and "u = entitlement_read (now en) w dev (req_userId req)"
    and "\<not> isPro u"
  shows "(freeAnalysesUsed u \<ge> freeAnalysesLimit u \<longrightarrow>
            statusCode (fst (post_analysis en req w)) = 402
          \<and> body (fst (post_analysis en req w)) = Error_body ''PAYWALL_REQUIRED''
               ''Free analyses limit reached. Upgrade to Pro for unlimited access.''
          \<and> jobs (snd (post_analysis en req w)) = jobs w
          \<and> tasks (snd (post_analysis en req w)) = tasks w
          \<and> users (snd (post_analysis en req w)) (docId dev (req_userId req)) = Some u)
       \<and> (freeAnalysesUsed u < freeAnalysesLimit u \<and> fault en At_signed_url = None
            \<and> fault en At_job_set = None \<and> fault en At_user_update = None \<longrightarrow>
            statusCode (fst (post_analysis en req w)) = 201
          \<and> map_option status (jobs (snd (post_analysis en req w)) (uuid1 en)) = Some queued
          \<and> map_option freeAnalysesUsed
               (users (snd (post_analysis en req w)) (docId dev (req_userId req)))
              = Some (freeAnalysesUsed u + 1))
       \<and> (map_option freeAnalysesUsed
             (users (snd (post_analysis en req w)) (docId dev (req_userId req)))
              = Some (freeAnalysesUsed u)
          \<or> (map_option freeAnalysesUsed
                (users (snd (post_analysis en req w)) (docId dev (req_userId req)))
              = Some (freeAnalysesUsed u + 1)
             \<and> map_option status (jobs (snd (post_analysis en req w)) (uuid1 en)) = Some queued))"
proof -
  note g = getOrCreate_ok [OF assms(4,5), of dev "req_userId req" w, folded assms(6)]
  show ?thesis
    using assms(1,2,3,7) g
    by (auto simp: post_analysis_def run_defs route_defs generateSignedUploadUrl_def
          createAnalysisJob_def incrementFreeAnalysesUsed_def Let_def
        split: option.splits)
qed

theorem create_gated_witness:
  "statusCode (fst (post_analysis example_env example_request paywalled_world)) = 402
   \<and> jobs (snd (post_analysis example_env example_request paywalled_world)) = jobs paywalled_world
   \<and> statusCode (fst (post_analysis example_env example_request (example_world complete))) = 201
   \<and> map_option freeAnalysesUsed
        (users (snd (post_analysis example_env example_request (example_world complete))) ''d1'')
       = Some 1"
proof -
  have r: "req_body example_request = Some None" "req_deviceId example_request = Some ''d1''"
      "''d1'' \<noteq> []"
    and e: "fault example_env At_user_get = None" "fault example_env At_user_set = None"
    and f: "fault example_env At_signed_url = None" "fault example_env At_job_set = None"
      "fault example_env At_user_update = None"
    and d: "docId ''d1'' (req_userId example_request) = ''d1''"
    by (simp_all add: example_request_def example_env_def docId_def)
  have up: "entitlement_read (now example_env) paywalled_world ''d1'' (req_userId example_request)
              = example_user 1"
    by (simp add: entitlement_read_def paywalled_world_def d)
  have uf: "entitlement_read (now example_env) (example_world complete) ''d1''
              (req_userId example_request)
              = \<lparr>deviceId_u = ''d1'', userId_u = None, isPro = False,
                 freeAnalysesUsed = 0, freeAnalysesLimit = 1,
                 createdAt_u = 7, lastAnalysisAt = None\<rparr>"
    by (simp add: entitlement_read_def example_world_def d example_request_def example_env_def)
  have np: "\<not> isPro (example_user 1)" by (simp add: example_user_def)
  from create_gated [OF r e up [symmetric] np]
  have a: "statusCode (fst (post_analysis example_env example_request paywalled_world)) = 402
         \<and> jobs (snd (post_analysis example_env example_request paywalled_world))
             = jobs paywalled_world"
    by (simp add: example_user_def)
  from create_gated [OF r e uf [symmetric]] f
  have b: "statusCode (fst (post_analysis example_env example_request (example_world complete)))
             = 201
         \<and> map_option freeAnalysesUsed
              (users (snd (post_analysis example_env example_request (example_world complete)))
                 ''d1'') = Some 1"
    by (simp add: d)
  from a b show ?thesis by simp
qed

section \<open>The worker when the coaching collaborator fails\<close>

text \<open>
  C4. On every exit path the worker removes the downloaded video, the frames directory and
  the skeleton frames. The code does not: when both coaching models fail, the job reaches
  \<open>failed\<close> with the error message stored and the skeleton directory is removed, but the
  downloaded video and the frames directory are still on disk when the worker returns.
  The success path of the same function removes all three.
\<close>

theorem worker_failure_leaves_files:
  "(case processAnalysisTask coach_down_env example_params (example_world queued) of
      (outcome, w') \<Rightarrow>
        outcome = Inl (Error ''Failed to analyze shooting form with Gemini'')
      \<and> map_option status (jobs w' ''j1'') = Some failed
      \<and> map_option error (jobs w' ''j1'')
          = Some (Some ''Failed to analyze shooting form with Gemini'')
      \<and> files w' = [''/tmp/u1.mp4'']
      \<and> dirs w' = [(''/tmp/j1-frames'', [''frame-0001.jpg'', ''frame-0002.jpg''])])"
  by (simp add: coach_down_env_def ex_defs run_defs model_defs Let_def)

text \<open>The same job with the coaching models up: every temporary file is removed.\<close>

lemma worker_success_cleans:
  "(case processAnalysisTask example_env example_params (example_world queued) of
      (outcome, w') \<Rightarrow> outcome = Inr () \<and> files w' = [] \<and> dirs w' = [])"
  by (simp add: ex_defs run_defs model_defs Let_def)

section \<open>The worker when the pose estimation fails\<close>








section \<open>The correction category\<close>











section \<open>The continuity context\<close>










end
